theory Spec2Isabelle
  imports Complex_Main "HOL-Library.Multiset"
begin

section \<open>Option Strategy Simulator: pricing primitive and scenario projector\<close>

text \<open>
  The program is JavaScript. Its numbers are modelled as the reals: \<open>+\<close>, \<open>-\<close>, \<open>*\<close>,
  \<open>/\<close>, \<open>Math.log\<close>, \<open>Math.exp\<close> and \<open>Math.sqrt\<close> are the exact real operations, so
  rounding of IEEE doubles, \<open>NaN\<close> and \<open>Infinity\<close> are outside the model. Where the
  JavaScript would divide by zero or take the logarithm of a non-positive number the
  theorems below carry the hypotheses that exclude it, or do not depend on the value.
  There is one exception: the volatility-crush test compares a field with the result of a
  subtraction, and the rounding of that subtraction decides the comparison at ordinary
  inputs. That subtraction is modelled as the IEEE one.
\<close>

subsection \<open>IEEE double rounding\<close>

text \<open>
  Rounding of a real to the nearest double (binary64), ties to the even significand. A
  double in the binade \<open>2\<^sup>e \<le> |x| < 2\<^sup>e\<^sup>+\<^sup>1\<close> is an integer multiple of \<open>2\<^sup>e\<^sup>-\<^sup>5\<^sup>2\<close>; below
  \<open>2\<^sup>-\<^sup>1\<^sup>0\<^sup>2\<^sup>2\<close> the spacing stays \<open>2\<^sup>-\<^sup>1\<^sup>0\<^sup>7\<^sup>4\<close>. A result of magnitude \<open>2\<^sup>1\<^sup>0\<^sup>2\<^sup>4\<close> or more, which
  JavaScript turns into \<open>Infinity\<close>, is outside the model; the difference of a double and
  \<open>0.1\<close> never is.
\<close>

definition round_half_even :: "real \<Rightarrow> int" where
  "round_half_even x =
     (let n = \<lfloor>x\<rfloor>; d = x - of_int n
      in if d < 1 / 2 then n else if 1 / 2 < d then n + 1 else if even n then n else n + 1)"

definition binade :: "real \<Rightarrow> int" where
  "binade x = max \<lfloor>log 2 \<bar>x\<bar>\<rfloor> (- 1022)"

definition fl :: "real \<Rightarrow> real" where
  "fl x =
     (if x = 0 then 0
      else of_int (round_half_even (x / 2 powi (binade x - 52))) * 2 powi (binade x - 52))"

text \<open>\<^verbatim>\<open>a - b\<close> on two doubles: the exact difference, rounded.\<close>

definition double_minus :: "real \<Rightarrow> real \<Rightarrow> real" where
  "double_minus a b = fl (a - b)"

subsection \<open>utils/blackScholes: the error function and the normal distribution\<close>

text \<open>
  \<^verbatim>\<open>function erf(x)\<close>: the sign of \<open>x\<close> is saved (\<open>x >= 0 ? 1 : -1\<close>), \<open>x\<close> is replaced by
  its absolute value, and formula 7.1.26 of Abramowitz and Stegun is evaluated in
  Horner form.
\<close>

definition a1 :: real where "a1 = 254829592 / 10 ^ 9"
definition a2 :: real where "a2 = - (284496736 / 10 ^ 9)"
definition a3 :: real where "a3 = 1421413741 / 10 ^ 9"
definition a4 :: real where "a4 = - (1453152027 / 10 ^ 9)"
definition a5 :: real where "a5 = 1061405429 / 10 ^ 9"
definition p :: real where "p = 3275911 / 10 ^ 7"

definition erf :: "real \<Rightarrow> real" where
  "erf x0 =
     (let sign = (if x0 \<ge> 0 then 1 else - 1);
          x = \<bar>x0\<bar>;
          t = 1 / (1 + p * x);
          y = 1 - (((((a5 * t + a4) * t) + a3) * t + a2) * t + a1) * t * exp (- x * x)
      in sign * y)"


text \<open>\<^verbatim>\<open>function standardNormalCDF(x) { return (1.0 + erf(x / Math.sqrt(2.0))) / 2.0; }\<close>\<close>

definition standardNormalCDF :: "real \<Rightarrow> real" where
  "standardNormalCDF x = (1 + erf (x / sqrt 2)) / 2"

subsection \<open>utils/blackScholes: the call price\<close>

text \<open>
  \<^verbatim>\<open>blackScholesCall(S, K, T, r, sigma)\<close>: the intrinsic value when \<open>T <= 0\<close>, the
  Black-Scholes formula on the approximate distribution function otherwise.
\<close>

definition blackScholesCall :: "real \<Rightarrow> real \<Rightarrow> real \<Rightarrow> real \<Rightarrow> real \<Rightarrow> real" where
  "blackScholesCall S K T r sigma =
     (if T \<le> 0 then max 0 (S - K)
      else
        let d1 = (ln (S / K) + (r + 0.5 * sigma ^ 2) * T) / (sigma * sqrt T);
            d2 = d1 - sigma * sqrt T
        in S * standardNormalCDF d1 - K * exp (- r * T) * standardNormalCDF d2)"



subsection \<open>JavaScript values used by the projector\<close>

text \<open>
  A form field holds either the empty string or a number (\<^verbatim>\<open>handleOptionChange\<close> stores
  \<^verbatim>\<open>value === "" ? "" : parseFloat(value)\<close>, and \<^verbatim>\<open>DEFAULT_OPTIONS\<close> has
  \<^verbatim>\<open>target_iv: ""\<close>). In a condition JavaScript takes the empty string and the number
  zero as false, every other number as true.
\<close>

datatype jsfield = Blank | Num real

fun truthy :: "jsfield \<Rightarrow> bool" where
  "truthy Blank = False"
| "truthy (Num x) = (x \<noteq> 0)"

text \<open>\<^verbatim>\<open>a || b\<close> on a field and a number: \<open>a\<close> when it is truthy, \<open>b\<close> otherwise.\<close>

fun js_or :: "jsfield \<Rightarrow> real \<Rightarrow> real" where
  "js_or Blank b = b"
| "js_or (Num x) b = (if truthy (Num x) then x else b)"

text \<open>
  \<^verbatim>\<open>a && a < b\<close> on a field and a number, read as a condition (as \<^verbatim>\<open>Array.prototype.some\<close>
  reads it): false when \<open>a\<close> is falsy, the comparison otherwise.
\<close>

fun js_and_less :: "jsfield \<Rightarrow> real \<Rightarrow> bool" where
  "js_and_less Blank b = False"
| "js_and_less (Num x) b = (truthy (Num x) \<and> x < b)"

text \<open>
  A property of a chart point holds a number or a string. A string is either given by its
  characters (\<open>JStr\<close>) or it is the text that \<^verbatim>\<open>Number::toString\<close> gives for a number
  (\<open>JNumberString\<close>, for instance \<^verbatim>\<open>"4.099353106991066e+23"\<close>), whose characters are not
  spelled out here. The second form arises only from \<^verbatim>\<open>toFixed\<close> on a number of magnitude
  \<open>10\<^sup>2\<^sup>1\<close> or more.
\<close>

datatype jsval = JNum real | JStr string | JNumberString real

text \<open>
  The property names of a chart point: \<^verbatim>\<open>name\<close>, \<^verbatim>\<open>price\<close>, and the template string
  \<^verbatim>\<open>`${opt.type} ($${opt.strike})`\<close>. The template string is kept as the pair it is built
  from: the text of a number contains neither a space nor a dollar sign, so the string
  determines the pair, and it never equals \<^verbatim>\<open>name\<close> or \<^verbatim>\<open>price\<close>.
\<close>

datatype pname = Name | Price | Series string real

text \<open>
  An object is the list of its properties in insertion order. Assignment \<^verbatim>\<open>obj[k] = v\<close>
  overwrites the value of an existing property in place and appends a new one.
\<close>

type_synonym jsobj = "(pname \<times> jsval) list"

fun obj_set :: "jsobj \<Rightarrow> pname \<Rightarrow> jsval \<Rightarrow> jsobj" where
  "obj_set [] k v = [(k, v)]"
| "obj_set ((k', v') # kvs) k v =
     (if k' = k then (k, v) # kvs else (k', v') # obj_set kvs k v)"

text \<open>The strikes of the per-contract properties of a chart point, in property order.\<close>

fun seriesStrikes :: "jsobj \<Rightarrow> real list" where
  "seriesStrikes [] = []"
| "seriesStrikes ((Series l s, v) # kvs) = s # seriesStrikes kvs"
| "seriesStrikes ((k, v) # kvs) = seriesStrikes kvs"

subsection \<open>Number to string\<close>

text \<open>The decimal digits of a natural number, as \<^verbatim>\<open>`Day ${day}`\<close> prints the offset.\<close>

definition digit :: "nat \<Rightarrow> char" where
  "digit d = ''0123456789'' ! (d mod 10)"

fun decimal :: "nat \<Rightarrow> string" where
  "decimal n = (if n < 10 then [digit n] else decimal (n div 10) @ [digit (n mod 10)])"

declare decimal.simps [simp del]

text \<open>
  \<^verbatim>\<open>Number.prototype.toFixed(f)\<close>, following ECMAScript 21.1.3.3 on a real argument. A
  number of magnitude \<open>10\<^sup>2\<^sup>1\<close> or more is printed by \<^verbatim>\<open>Number::toString\<close>. Otherwise the
  sign is split off, \<open>n\<close> is the integer nearest to \<open>x \<sqdot> 10\<^sup>f\<close> (the larger one on a tie),
  its digits are padded with zeros to \<open>f + 1\<close> places and the point is put before the last
  \<open>f\<close> of them. The result is a string in both cases.
\<close>

definition toFixed_n :: "real \<Rightarrow> nat \<Rightarrow> nat" where
  "toFixed_n x f = nat \<lfloor>\<bar>x\<bar> * 10 ^ f + 1 / 2\<rfloor>"

definition toFixed :: "real \<Rightarrow> nat \<Rightarrow> jsval" where
  "toFixed x f =
     (if \<bar>x\<bar> \<ge> 10 ^ 21 then JNumberString x
      else
        let s = (if x < 0 then ''-'' else []);
            m = decimal (toFixed_n x f);
            m = (if length m \<le> f then replicate (f + 1 - length m) (CHR ''0'') @ m else m);
            k = length m
        in JStr (s @ (if f \<noteq> 0 then take (k - f) m @ ''.'' @ drop (k - f) m else m)))"

subsection \<open>App: configuration and option contracts\<close>

text \<open>
  \<^verbatim>\<open>config\<close> holds the four numbers of \<^verbatim>\<open>DEFAULT_CONFIG\<close>; an option holds the fields of
  an entry of \<^verbatim>\<open>DEFAULT_OPTIONS\<close>, of which only \<^verbatim>\<open>target_iv\<close> starts out as the empty
  string. The numbers the program receives are doubles: \<^verbatim>\<open>parseFloat\<close> turns the text
  \<^verbatim>\<open>0.6\<close> into \<open>fl 0.6\<close>.
\<close>

record config =
  CURRENT_PRICE :: real
  TARGET_PRICE :: real
  RISK_FREE_RATE :: real
  DAYS_TO_EXPIRY :: real

record opt =
  opt_id :: nat
  type :: string
  strike :: real
  ask :: real
  iv :: real
  target_iv :: jsfield
  delta :: real
  gamma :: real
  theta :: real

text \<open>
  \<^verbatim>\<open>[...options].sort((a, b) => a.strike - b.strike)\<close>: \<^verbatim>\<open>Array.prototype.sort\<close> is a
  stable sort, here by ascending strike.
\<close>

definition sortedOptions :: "opt list \<Rightarrow> opt list" where
  "sortedOptions options = sort_key strike options"

subsection \<open>App: calculateProjections\<close>

text \<open>
  \<^verbatim>\<open>sortedOptions.some(opt => opt.target_iv && opt.target_iv < opt.iv - 0.1)\<close>. The
  literal \<^verbatim>\<open>0.1\<close> is the double nearest to one tenth, and the subtraction is rounded.
\<close>

definition crushDetected :: "opt list \<Rightarrow> bool" where
  "crushDetected sopts =
     list_ex (\<lambda>opt. js_and_less (target_iv opt) (double_minus (iv opt) (fl 0.1))) sopts"

text \<open>
  \<^verbatim>\<open>[30, 60, ..., 360].filter(day => day <= config.DAYS_TO_EXPIRY)\<close>
\<close>

definition scenarios :: "config \<Rightarrow> nat list" where
  "scenarios cfg =
     filter (\<lambda>d. real d \<le> DAYS_TO_EXPIRY cfg)
       [30, 60, 90, 120, 150, 180, 210, 240, 270, 300, 330, 360]"

definition daysRemaining :: "config \<Rightarrow> nat \<Rightarrow> real" where
  "daysRemaining cfg d = max (DAYS_TO_EXPIRY cfg - real d) 0"

definition yearsRemaining :: "config \<Rightarrow> nat \<Rightarrow> real" where
  "yearsRemaining cfg d = max (daysRemaining cfg d / 365) 0.0001"

definition simulatedPrice :: "config \<Rightarrow> real" where
  "simulatedPrice cfg = TARGET_PRICE cfg"

text \<open>\<^verbatim>\<open>const targetIv = opt.target_iv || opt.iv;\<close>\<close>

definition targetIv :: "opt \<Rightarrow> real" where
  "targetIv opt = js_or (target_iv opt) (iv opt)"

definition estPrice :: "config \<Rightarrow> nat \<Rightarrow> opt \<Rightarrow> real" where
  "estPrice cfg d opt =
     blackScholesCall (simulatedPrice cfg) (strike opt) (yearsRemaining cfg d)
       (RISK_FREE_RATE cfg) (targetIv opt)"

definition cost :: "opt \<Rightarrow> real" where
  "cost opt = ask opt"

definition profit :: "config \<Rightarrow> nat \<Rightarrow> opt \<Rightarrow> real" where
  "profit cfg d opt = estPrice cfg d opt - cost opt"

definition roi :: "config \<Rightarrow> nat \<Rightarrow> opt \<Rightarrow> real" where
  "roi cfg d opt = (if cost opt > 0 then (profit cfg d opt / cost opt) * 100 else 0)"

text \<open>
  The entries pushed onto \<^verbatim>\<open>dayResult.details\<close> and the records pushed onto
  \<^verbatim>\<open>groupedData\<close>. (The fields of a detail are \<^verbatim>\<open>type\<close>, \<^verbatim>\<open>strike\<close>, \<^verbatim>\<open>roi\<close> and
  \<^verbatim>\<open>profit\<close> in the source; they are prefixed here to keep them apart from the fields
  of an option and from the functions above. The last two hold strings.)
\<close>

record detail =
  d_type :: string
  d_strike :: real
  d_roi :: jsval
  d_profit :: jsval

record dayResult =
  day :: string
  details :: "detail list"

definition dayLabel :: "nat \<Rightarrow> string" where
  "dayLabel d = ''Day '' @ decimal d"

text \<open>
  The body of \<^verbatim>\<open>sortedOptions.forEach\<close> for one option: it assigns the option's property
  of the chart point and pushes one detail.
\<close>

definition setSeries :: "config \<Rightarrow> nat \<Rightarrow> opt \<Rightarrow> jsobj \<Rightarrow> jsobj" where
  "setSeries cfg d opt chartPoint =
     obj_set chartPoint (Series (type opt) (strike opt)) (toFixed (roi cfg d opt) 2)"

definition detailFor :: "config \<Rightarrow> nat \<Rightarrow> opt \<Rightarrow> detail" where
  "detailFor cfg d opt =
     \<lparr>d_type = type opt, d_strike = strike opt,
      d_roi = toFixed (roi cfg d opt) 2, d_profit = toFixed (profit cfg d opt) 2\<rparr>"

text \<open>The body of \<^verbatim>\<open>scenarios.forEach\<close> for one offset: the chart point and the day's record.\<close>

definition chartPointFor :: "config \<Rightarrow> opt list \<Rightarrow> nat \<Rightarrow> jsobj" where
  "chartPointFor cfg sopts d =
     fold (setSeries cfg d) sopts
       [(Name, JStr (dayLabel d)), (Price, JNum (simulatedPrice cfg))]"

definition dayResultFor :: "config \<Rightarrow> opt list \<Rightarrow> nat \<Rightarrow> dayResult" where
  "dayResultFor cfg sopts d = \<lparr>day = dayLabel d, details = map (detailFor cfg d) sopts\<rparr>"

text \<open>
  What \<^verbatim>\<open>calculateProjections\<close> hands to \<^verbatim>\<open>setChartData\<close>, \<^verbatim>\<open>setGroupedResults\<close> and
  \<^verbatim>\<open>setIsIvCrush\<close>.
\<close>

record projections =
  chartData :: "jsobj list"
  groupedResults :: "dayResult list"
  isIvCrush :: bool

definition calculateProjections :: "config \<Rightarrow> opt list \<Rightarrow> projections" where
  "calculateProjections cfg sopts =
     \<lparr>chartData = map (chartPointFor cfg sopts) (scenarios cfg),
      groupedResults = map (dayResultFor cfg sopts) (scenarios cfg),
      isIvCrush = crushDetected sopts\<rparr>"

text \<open>The effect as a whole: the options are sorted, then projected.\<close>

definition project :: "config \<Rightarrow> opt list \<Rightarrow> projections" where
  "project cfg options = calculateProjections cfg (sortedOptions options)"

section \<open>Properties of the pricing primitive\<close>


lemma erf_neg_arg: "x < 0 \<Longrightarrow> erf x = - erf (- x)"
  by (simp add: erf_def Let_def)

lemma erf_at_zero: "erf 0 = 1 / 10 ^ 9"
  by (simp add: erf_def Let_def a1_def a2_def a3_def a4_def a5_def p_def)

text \<open>
  Claim C5. For every spot, strike, rate and volatility (in particular for positive spot
  and strike), a call with \<open>yearsToExpiry \<le> 0\<close> is priced at its intrinsic value
  \<open>max(0, spot - strike)\<close>; at \<open>yearsToExpiry = 0\<close> this is the boundary case of the spec.
\<close>

theorem blackScholesCall_intrinsic:
  "T \<le> 0 \<Longrightarrow> blackScholesCall S K T r sigma = max 0 (S - K)"
  by (simp add: blackScholesCall_def)

theorem blackScholesCall_intrinsic_witness:
  "(0::real) \<le> 0 \<and> blackScholesCall 360 340 0 (45 / 1000) (6737 / 10000) = 20
   \<and> blackScholesCall 300 340 (- 1) (45 / 1000) (6737 / 10000) = 0"
  using blackScholesCall_intrinsic [of 0 360 340 "45 / 1000" "6737 / 10000"]
    blackScholesCall_intrinsic [of "- 1" 300 340 "45 / 1000" "6737 / 10000"]
  by simp

text \<open>
  Claim C7, as stated, fails at \<open>x = 0\<close>: the five coefficients sum to \<open>0.999999999\<close>, so
  the approximation returns \<open>10\<^sup>-\<^sup>9\<close> at zero, not \<open>0\<close>; the sign test \<open>x >= 0\<close> sends
  zero to the positive branch, so oddness fails there too, and the distribution function
  at zero is \<open>0.5 + 5 \<sqdot> 10\<^sup>-\<^sup>1\<^sup>0\<close>.
\<close>

theorem erf_zero_counterexample:
  "erf 0 \<noteq> 0 \<and> erf (- 0) \<noteq> - erf 0 \<and> standardNormalCDF 0 \<noteq> 1 / 2"
  by (simp add: standardNormalCDF_def erf_at_zero)

text \<open>
  Claim C7, amended. The approximation is odd away from zero: \<open>erf(-x) = -erf(x)\<close> for
  every \<open>x \<noteq> 0\<close>. At zero it returns \<open>10\<^sup>-\<^sup>9\<close>, and the distribution function built on it
  returns \<open>0.5 + 5 \<sqdot> 10\<^sup>-\<^sup>1\<^sup>0\<close>.
\<close>

theorem erf_odd_away_from_zero:
  "(x \<noteq> 0 \<longrightarrow> erf (- x) = - erf x)
   \<and> erf 0 = 1 / 10 ^ 9
   \<and> standardNormalCDF 0 = 1 / 2 + 5 / 10 ^ 10"
proof (intro conjI impI)
  assume "x \<noteq> 0"
  then consider "x < 0" | "0 < x" by linarith
  then show "erf (- x) = - erf x"
  proof cases
    case 1
    then show ?thesis using erf_neg_arg [of x] by simp
  next
    case 2
    then show ?thesis using erf_neg_arg [of "- x"] by simp
  qed
next
  show "erf 0 = 1 / 10 ^ 9" by (rule erf_at_zero)
next
  show "standardNormalCDF 0 = 1 / 2 + 5 / 10 ^ 10"
    by (simp add: standardNormalCDF_def erf_at_zero)
qed

theorem erf_odd_away_from_zero_witness:
  "(2::real) \<noteq> 0 \<and> erf (- 2) = - erf 2"
  using erf_odd_away_from_zero [of 2] by simp

subsection \<open>The price as a function of the spot\<close>


























section \<open>Properties of the scenario projector\<close>

subsection \<open>Objects and strings\<close>

lemma map_of_obj_set: "map_of (obj_set kvs k v) = (map_of kvs)(k \<mapsto> v)"
  by (induction kvs k v rule: obj_set.induct) (auto simp: fun_eq_iff)

lemma toFixed_zero: "toFixed 0 2 = JStr ''0.00''"
  by (simp add: toFixed_def toFixed_n_def decimal.simps digit_def)

lemma map_of_fold_setSeries:
  "map_of (fold (setSeries cfg d) sopts cp) k =
     (case filter (\<lambda>opt. Series (type opt) (strike opt) = k) sopts of
        [] \<Rightarrow> map_of cp k
      | xs \<Rightarrow> Some (toFixed (roi cfg d (last xs)) 2))"
proof (induction sopts arbitrary: cp)
  case Nil
  show ?case by simp
next
  case (Cons opt sopts)
  have step: "map_of (setSeries cfg d opt cp) k =
      (if Series (type opt) (strike opt) = k then Some (toFixed (roi cfg d opt) 2)
       else map_of cp k)"
    by (simp add: setSeries_def map_of_obj_set)
  have "map_of (fold (setSeries cfg d) (opt # sopts) cp) k =
      map_of (fold (setSeries cfg d) sopts (setSeries cfg d opt cp)) k"
    by simp
  also have "\<dots> =
      (case filter (\<lambda>opt. Series (type opt) (strike opt) = k) sopts of
         [] \<Rightarrow> map_of (setSeries cfg d opt cp) k
       | xs \<Rightarrow> Some (toFixed (roi cfg d (last xs)) 2))"
    by (rule Cons.IH)
  also have "\<dots> =
      (case filter (\<lambda>opt. Series (type opt) (strike opt) = k) (opt # sopts) of
         [] \<Rightarrow> map_of cp k
       | xs \<Rightarrow> Some (toFixed (roi cfg d (last xs)) 2))"
    by (simp add: step split: list.splits)
  finally show ?case .
qed

lemma set_sortedOptions: "set (sortedOptions options) = set options"
  by (simp add: sortedOptions_def)

lemma chartData_project:
  "chartData (project cfg options) =
     map (chartPointFor cfg (sortedOptions options)) (scenarios cfg)"
  by (simp add: project_def calculateProjections_def)

lemma groupedResults_project:
  "groupedResults (project cfg options) =
     map (dayResultFor cfg (sortedOptions options)) (scenarios cfg)"
  by (simp add: project_def calculateProjections_def)

subsection \<open>Which volatility is priced\<close>

text \<open>
  Claim C1, as stated, fails for a target volatility of exactly zero: \<^verbatim>\<open>0 || opt.iv\<close> is
  \<^verbatim>\<open>opt.iv\<close>, so a contract with \<open>iv = 0.6\<close> and \<open>target_iv = 0\<close> is priced at \<open>0.6\<close>.
\<close>

theorem targetIv_zero_counterexample:
  "target_iv \<lparr>opt_id = 2, type = ''ATM Call'', strike = 340, ask = 9877 / 100, iv = 6 / 10,
      target_iv = Num 0, delta = 6608 / 10000, gamma = 16 / 10000, theta = - (1288 / 10000)\<rparr>
     = Num 0
   \<and> targetIv \<lparr>opt_id = 2, type = ''ATM Call'', strike = 340, ask = 9877 / 100, iv = 6 / 10,
      target_iv = Num 0, delta = 6608 / 10000, gamma = 16 / 10000, theta = - (1288 / 10000)\<rparr>
     = 6 / 10
   \<and> targetIv \<lparr>opt_id = 2, type = ''ATM Call'', strike = 340, ask = 9877 / 100, iv = 6 / 10,
      target_iv = Num 0, delta = 6608 / 10000, gamma = 16 / 10000, theta = - (1288 / 10000)\<rparr>
     \<noteq> 0"
  by (simp add: targetIv_def)

text \<open>
  Claim C1, amended. For every contract and offset the pricing primitive is called with the
  target price, the strike, the remaining years, the rate and the volatility \<open>targetIv\<close>,
  which is the contract's \<open>target_iv\<close> when that field holds a non-zero number, and the
  contract's \<open>iv\<close> when the field is empty or holds zero.
\<close>

theorem targetIv_fallback:
  "estPrice cfg d opt =
     blackScholesCall (TARGET_PRICE cfg) (strike opt) (yearsRemaining cfg d)
       (RISK_FREE_RATE cfg) (targetIv opt)
   \<and> targetIv opt =
       (case target_iv opt of
          Blank \<Rightarrow> iv opt
        | Num x \<Rightarrow> if x = 0 then iv opt else x)"
  by (simp add: estPrice_def simulatedPrice_def targetIv_def split: jsfield.splits)

theorem targetIv_fallback_witness:
  "targetIv \<lparr>opt_id = 2, type = ''ATM Call'', strike = 340, ask = 9877 / 100, iv = 6737 / 10000,
      target_iv = Num (45 / 100), delta = 0, gamma = 0, theta = 0\<rparr> = 45 / 100
   \<and> targetIv \<lparr>opt_id = 2, type = ''ATM Call'', strike = 340, ask = 9877 / 100, iv = 6737 / 10000,
      target_iv = Num 0, delta = 0, gamma = 0, theta = 0\<rparr> = 6737 / 10000
   \<and> targetIv \<lparr>opt_id = 2, type = ''ATM Call'', strike = 340, ask = 9877 / 100, iv = 6737 / 10000,
      target_iv = Blank, delta = 0, gamma = 0, theta = 0\<rparr> = 6737 / 10000"
  using
    targetIv_fallback [of
      "\<lparr>CURRENT_PRICE = 340, TARGET_PRICE = 360, RISK_FREE_RATE = 45 / 1000,
        DAYS_TO_EXPIRY = 365\<rparr>" 30
      "\<lparr>opt_id = 2, type = ''ATM Call'', strike = 340, ask = 9877 / 100, iv = 6737 / 10000,
        target_iv = Num (45 / 100), delta = 0, gamma = 0, theta = 0\<rparr>"]
    targetIv_fallback [of
      "\<lparr>CURRENT_PRICE = 340, TARGET_PRICE = 360, RISK_FREE_RATE = 45 / 1000,
        DAYS_TO_EXPIRY = 365\<rparr>" 30
      "\<lparr>opt_id = 2, type = ''ATM Call'', strike = 340, ask = 9877 / 100, iv = 6737 / 10000,
        target_iv = Num 0, delta = 0, gamma = 0, theta = 0\<rparr>"]
    targetIv_fallback [of
      "\<lparr>CURRENT_PRICE = 340, TARGET_PRICE = 360, RISK_FREE_RATE = 45 / 1000,
        DAYS_TO_EXPIRY = 365\<rparr>" 30
      "\<lparr>opt_id = 2, type = ''ATM Call'', strike = 340, ask = 9877 / 100, iv = 6737 / 10000,
        target_iv = Blank, delta = 0, gamma = 0, theta = 0\<rparr>"]
  by simp

subsection \<open>The volatility-crush flag\<close>

lemma binade_eq:
  assumes "2 powi e \<le> \<bar>x\<bar>" "\<bar>x\<bar> < 2 powi (e + 1)" "- 1022 \<le> e"
  shows "binade x = e"
proof -
  have "(0::real) < 2 powi e" by simp
  with assms(1) have pos: "0 < \<bar>x\<bar>" by linarith
  have "(2::real) powr (real_of_int e) = 2 powi e"
    by (simp add: powr_real_of_int')
  moreover have "(2::real) powr (real_of_int e + 1) = 2 powi (e + 1)"
    using powr_real_of_int' [of "2::real" "e + 1"] by simp
  ultimately have "\<lfloor>log 2 \<bar>x\<bar>\<rfloor> = e"
    using assms pos by (simp add: floor_log_eq_powr_iff)
  then show ?thesis using assms(3) by (simp add: binade_def)
qed

lemma fl_eval:
  assumes "2 powi e \<le> \<bar>x\<bar>" "\<bar>x\<bar> < 2 powi (e + 1)" "- 1022 \<le> e"
  shows "fl x = of_int (round_half_even (x / 2 powi (e - 52))) * 2 powi (e - 52)"
proof -
  have "(0::real) < 2 powi e" by simp
  with assms(1) have "0 < \<bar>x\<bar>" by linarith
  then have "x \<noteq> 0" by simp
  then show ?thesis by (simp add: fl_def binade_eq [OF assms])
qed

text \<open>The doubles of the examples, and the two differences.\<close>

lemma fl_tenth: "fl (1 / 10) = 3602879701896397 / 2 ^ 55"
  by (subst fl_eval [where e = "- 4"]) (simp_all add: round_half_even_def power_int_minus)

lemma fl_six_tenths: "fl (6 / 10) = 5404319552844595 / 2 ^ 53"
  by (subst fl_eval [where e = "- 1"]) (simp_all add: round_half_even_def power_int_minus)

lemma fl_eight_tenths: "fl (8 / 10) = 7205759403792794 / 2 ^ 53"
  by (subst fl_eval [where e = "- 1"]) (simp_all add: round_half_even_def power_int_minus)

lemma fl_seven_tenths: "fl (7 / 10) = 6305039478318694 / 2 ^ 53"
  by (subst fl_eval [where e = "- 1"]) (simp_all add: round_half_even_def power_int_minus)

lemma fl_045: "fl (45 / 100) = 8106479329266893 / 2 ^ 54"
  by (subst fl_eval [where e = "- 2"]) (simp_all add: round_half_even_def power_int_minus)

lemma fl_055: "fl (55 / 100) = 4953959590107546 / 2 ^ 53"
  by (subst fl_eval [where e = "- 1"]) (simp_all add: round_half_even_def power_int_minus)

lemma fl_two_tenths: "fl (2 / 10) = 3602879701896397 / 2 ^ 54"
  by (subst fl_eval [where e = "- 3"]) (simp_all add: round_half_even_def power_int_minus)

lemma two_tenths_minus_tenth: "double_minus (fl (2 / 10)) (fl (1 / 10)) = fl (1 / 10)"
  unfolding double_minus_def fl_tenth fl_two_tenths
  by (subst fl_eval [where e = "- 4"]) (simp_all add: round_half_even_def power_int_minus)

lemma six_tenths_minus_tenth: "double_minus (fl (6 / 10)) (fl (1 / 10)) = 1 / 2"
  unfolding double_minus_def fl_tenth fl_six_tenths
  by (subst fl_eval [where e = "- 2"]) (simp_all add: round_half_even_def power_int_minus)

lemma eight_tenths_minus_tenth:
  "double_minus (fl (8 / 10)) (fl (1 / 10)) = 6305039478318695 / 2 ^ 53"
  unfolding double_minus_def fl_tenth fl_eight_tenths
  by (subst fl_eval [where e = "- 1"]) (simp_all add: round_half_even_def power_int_minus)

lemma crushDetected_iff:
  "crushDetected sopts \<longleftrightarrow>
     (\<exists>opt \<in> set sopts. \<exists>x. target_iv opt = Num x \<and> x \<noteq> 0
        \<and> x < double_minus (iv opt) (fl (1 / 10)))"
proof -
  have "js_and_less f b \<longleftrightarrow> (\<exists>x. f = Num x \<and> x \<noteq> 0 \<and> x < b)" for f b
    by (cases f) auto
  then show ?thesis
    by (simp add: crushDetected_def list_ex_iff)
qed

lemma crush_single:
  "isIvCrush (project cfg [opt]) \<longleftrightarrow>
     (\<exists>x. target_iv opt = Num x \<and> x \<noteq> 0 \<and> x < double_minus (iv opt) (fl (1 / 10)))"
  by (simp add: project_def calculateProjections_def crushDetected_iff sortedOptions_def)

text \<open>
  Claim C2, as stated, fails in two ways. A target volatility of exactly zero is set, and
  \<open>0 < 0.6 - 0.1\<close>, but \<^verbatim>\<open>opt.target_iv && ...\<close> is falsy, so the flag stays false. And
  the subtraction is rounded: \<open>0.7\<close> is not below \<open>0.8 - 0.1\<close>, but the rounded difference of
  the doubles \<open>0.8\<close> and \<open>0.1\<close> is above the double \<open>0.7\<close>, so a contract with \<open>iv = 0.8\<close> and
  \<open>target_iv = 0.7\<close> raises the flag.
\<close>

theorem isIvCrush_zero_counterexample:
  "(0::real) < 6 / 10 - 1 / 10
   \<and> \<not> isIvCrush (project
        \<lparr>CURRENT_PRICE = 340, TARGET_PRICE = 360, RISK_FREE_RATE = 45 / 1000,
          DAYS_TO_EXPIRY = 365\<rparr>
        [\<lparr>opt_id = 2, type = ''ATM Call'', strike = 340, ask = 9877 / 100, iv = fl (6 / 10),
          target_iv = Num 0, delta = 6608 / 10000, gamma = 16 / 10000,
          theta = - (1288 / 10000)\<rparr>])
   \<and> \<not> (7 / 10 :: real) < 8 / 10 - 1 / 10
   \<and> isIvCrush (project
        \<lparr>CURRENT_PRICE = 340, TARGET_PRICE = 360, RISK_FREE_RATE = 45 / 1000,
          DAYS_TO_EXPIRY = 365\<rparr>
        [\<lparr>opt_id = 2, type = ''ATM Call'', strike = 340, ask = 9877 / 100, iv = fl (8 / 10),
          target_iv = Num (fl (7 / 10)), delta = 6608 / 10000, gamma = 16 / 10000,
          theta = - (1288 / 10000)\<rparr>])"
proof -
  have "fl (7 / 10) < double_minus (fl (8 / 10)) (fl (1 / 10))" "fl (7 / 10) \<noteq> 0"
    unfolding eight_tenths_minus_tenth fl_seven_tenths by simp_all
  then show ?thesis
    unfolding crush_single by simp
qed

text \<open>
  Claim C2, amended. The flag is true if and only if at least one contract of the input has
  a \<open>target_iv\<close> that holds a non-zero number below the double that \<open>iv - 0.1\<close> evaluates to
  (the difference of \<open>iv\<close> and the double nearest to one tenth, rounded to the nearest
  double). A single contract with \<open>iv = 0.60\<close> raises the flag with \<open>target_iv = 0.45\<close> and
  does not with \<open>target_iv = 0.55\<close>, for \<open>0.6 - 0.1\<close> evaluates to \<open>0.5\<close>; a single contract with
  \<open>iv = 0.8\<close> raises it with \<open>target_iv = 0.7\<close>, for \<open>0.8 - 0.1\<close> evaluates to the double \<open>0.7\<close>
  plus \<open>2\<^sup>-\<^sup>5\<^sup>3\<close>; a single contract with \<open>iv = 0.2\<close> does not raise it with \<open>target_iv = 0.1\<close>,
  for \<open>0.2 - 0.1\<close> evaluates to the double \<open>0.1\<close>.
\<close>

theorem isIvCrush_iff:
  "(isIvCrush (project cfg options) \<longleftrightarrow>
      (\<exists>opt \<in> set options. \<exists>x. target_iv opt = Num x \<and> x \<noteq> 0
         \<and> x < double_minus (iv opt) (fl (1 / 10))))
   \<and> (iv opt = fl (6 / 10) \<and> target_iv opt = Num (fl (45 / 100))
        \<longrightarrow> isIvCrush (project cfg [opt]))
   \<and> (iv opt = fl (6 / 10) \<and> target_iv opt = Num (fl (55 / 100))
        \<longrightarrow> \<not> isIvCrush (project cfg [opt]))
   \<and> (iv opt = fl (8 / 10) \<and> target_iv opt = Num (fl (7 / 10))
        \<longrightarrow> isIvCrush (project cfg [opt]))
   \<and> (iv opt = fl (2 / 10) \<and> target_iv opt = Num (fl (1 / 10))
        \<longrightarrow> \<not> isIvCrush (project cfg [opt]))
   \<and> double_minus (fl (6 / 10)) (fl (1 / 10)) = 1 / 2
   \<and> double_minus (fl (8 / 10)) (fl (1 / 10)) = fl (7 / 10) + 1 / 2 ^ 53
   \<and> double_minus (fl (2 / 10)) (fl (1 / 10)) = fl (1 / 10)"
proof (intro conjI impI)
  show "isIvCrush (project cfg options) \<longleftrightarrow>
      (\<exists>opt \<in> set options. \<exists>x. target_iv opt = Num x \<and> x \<noteq> 0
         \<and> x < double_minus (iv opt) (fl (1 / 10)))"
    by (simp add: project_def calculateProjections_def crushDetected_iff set_sortedOptions)
next
  assume given: "iv opt = fl (6 / 10) \<and> target_iv opt = Num (fl (45 / 100))"
  have "fl (45 / 100) < double_minus (fl (6 / 10)) (fl (1 / 10))" "fl (45 / 100) \<noteq> 0"
    unfolding six_tenths_minus_tenth fl_045 by simp_all
  with given show "isIvCrush (project cfg [opt])"
    unfolding crush_single by simp
next
  assume given: "iv opt = fl (6 / 10) \<and> target_iv opt = Num (fl (55 / 100))"
  have "\<not> fl (55 / 100) < double_minus (fl (6 / 10)) (fl (1 / 10))"
    unfolding six_tenths_minus_tenth fl_055 by simp
  with given show "\<not> isIvCrush (project cfg [opt])"
    unfolding crush_single by simp
next
  assume given: "iv opt = fl (8 / 10) \<and> target_iv opt = Num (fl (7 / 10))"
  have "fl (7 / 10) < double_minus (fl (8 / 10)) (fl (1 / 10))" "fl (7 / 10) \<noteq> 0"
    unfolding eight_tenths_minus_tenth fl_seven_tenths by simp_all
  with given show "isIvCrush (project cfg [opt])"
    unfolding crush_single by simp
next
  assume given: "iv opt = fl (2 / 10) \<and> target_iv opt = Num (fl (1 / 10))"
  have "\<not> fl (1 / 10) < double_minus (fl (2 / 10)) (fl (1 / 10))"
    unfolding two_tenths_minus_tenth by simp
  with given show "\<not> isIvCrush (project cfg [opt])"
    unfolding crush_single by simp
next
  show "double_minus (fl (6 / 10)) (fl (1 / 10)) = 1 / 2"
    by (rule six_tenths_minus_tenth)
  show "double_minus (fl (8 / 10)) (fl (1 / 10)) = fl (7 / 10) + 1 / 2 ^ 53"
    unfolding eight_tenths_minus_tenth fl_seven_tenths by simp
  show "double_minus (fl (2 / 10)) (fl (1 / 10)) = fl (1 / 10)"
    by (rule two_tenths_minus_tenth)
qed

theorem isIvCrush_iff_witness:
  "isIvCrush (project
      \<lparr>CURRENT_PRICE = 340, TARGET_PRICE = 360, RISK_FREE_RATE = 45 / 1000, DAYS_TO_EXPIRY = 365\<rparr>
      [\<lparr>opt_id = 2, type = ''ATM Call'', strike = 340, ask = 9877 / 100, iv = fl (6 / 10),
        target_iv = Num (fl (45 / 100)), delta = 0, gamma = 0, theta = 0\<rparr>])
   \<and> \<not> isIvCrush (project
      \<lparr>CURRENT_PRICE = 340, TARGET_PRICE = 360, RISK_FREE_RATE = 45 / 1000, DAYS_TO_EXPIRY = 365\<rparr>
      [\<lparr>opt_id = 2, type = ''ATM Call'', strike = 340, ask = 9877 / 100, iv = fl (6 / 10),
        target_iv = Num (fl (55 / 100)), delta = 0, gamma = 0, theta = 0\<rparr>])
   \<and> isIvCrush (project
      \<lparr>CURRENT_PRICE = 340, TARGET_PRICE = 360, RISK_FREE_RATE = 45 / 1000, DAYS_TO_EXPIRY = 365\<rparr>
      [\<lparr>opt_id = 2, type = ''ATM Call'', strike = 340, ask = 9877 / 100, iv = fl (8 / 10),
        target_iv = Num (fl (7 / 10)), delta = 0, gamma = 0, theta = 0\<rparr>])"
proof -
  let ?cfg = "\<lparr>CURRENT_PRICE = 340, TARGET_PRICE = 360, RISK_FREE_RATE = 45 / 1000,
      DAYS_TO_EXPIRY = 365\<rparr>"
  let ?a = "\<lparr>opt_id = 2, type = ''ATM Call'', strike = 340, ask = 9877 / 100, iv = fl (6 / 10),
        target_iv = Num (fl (45 / 100)), delta = 0, gamma = 0, theta = 0\<rparr>"
  let ?b = "\<lparr>opt_id = 2, type = ''ATM Call'', strike = 340, ask = 9877 / 100, iv = fl (6 / 10),
        target_iv = Num (fl (55 / 100)), delta = 0, gamma = 0, theta = 0\<rparr>"
  let ?c = "\<lparr>opt_id = 2, type = ''ATM Call'', strike = 340, ask = 9877 / 100, iv = fl (8 / 10),
        target_iv = Num (fl (7 / 10)), delta = 0, gamma = 0, theta = 0\<rparr>"
  have a: "iv ?a = fl (6 / 10) \<and> target_iv ?a = Num (fl (45 / 100))"
    and b: "iv ?b = fl (6 / 10) \<and> target_iv ?b = Num (fl (55 / 100))"
    and c: "iv ?c = fl (8 / 10) \<and> target_iv ?c = Num (fl (7 / 10))"
    by (simp_all only: opt.simps simp_thms)
  from isIvCrush_iff [where cfg = ?cfg and options = "[]" and opt = ?a] a
  have "isIvCrush (project ?cfg [?a])" by blast
  moreover from isIvCrush_iff [where cfg = ?cfg and options = "[]" and opt = ?b] b
  have "\<not> isIvCrush (project ?cfg [?b])" by blast
  moreover from isIvCrush_iff [where cfg = ?cfg and options = "[]" and opt = ?c] c
  have "isIvCrush (project ?cfg [?c])" by blast
  ultimately show ?thesis by (intro conjI)
qed

subsection \<open>The scenario offsets\<close>

lemma set_scenarios:
  "set (scenarios cfg) =
     {d. 30 dvd d \<and> 30 \<le> d \<and> d \<le> 360 \<and> real d \<le> DAYS_TO_EXPIRY cfg}"
proof -
  have "set [30, 60, 90, 120, 150, 180, 210, 240, 270, 300, 330, 360 :: nat] =
          {d. 30 dvd d \<and> 30 \<le> d \<and> d \<le> 360}"
    by (rule set_eqI, simp, presburger)
  then show ?thesis
    unfolding scenarios_def set_filter by blast
qed

lemma sorted_scenarios: "sorted (scenarios cfg) \<and> distinct (scenarios cfg)"
  unfolding scenarios_def by (intro conjI sorted_wrt_filter distinct_filter) simp_all

text \<open>
  Claim C3. The retained offsets are exactly the multiples of 30 from 30 to 360 that do not
  exceed \<open>DAYS_TO_EXPIRY\<close>, in ascending order and without repetition; the chart series and
  the grouped table have one entry per retained offset. With 100 days to expiry the offsets
  are 30, 60, 90; with fewer than 30 days there is none, and the chart series and the
  grouped table are empty lists.
\<close>

theorem scenarios_retained:
  "set (scenarios cfg) =
     {d. 30 dvd d \<and> 30 \<le> d \<and> d \<le> 360 \<and> real d \<le> DAYS_TO_EXPIRY cfg}
   \<and> sorted (scenarios cfg) \<and> distinct (scenarios cfg)
   \<and> map (\<lambda>cp. map_of cp Name) (chartData (project cfg options)) =
       map (\<lambda>d. Some (JStr (dayLabel d))) (scenarios cfg)
   \<and> map day (groupedResults (project cfg options)) = map dayLabel (scenarios cfg)
   \<and> (DAYS_TO_EXPIRY cfg = 100 \<longrightarrow> scenarios cfg = [30, 60, 90])
   \<and> (DAYS_TO_EXPIRY cfg < 30 \<longrightarrow>
        scenarios cfg = [] \<and> chartData (project cfg options) = []
        \<and> groupedResults (project cfg options) = [])"
proof (intro conjI impI)
  show "map (\<lambda>cp. map_of cp Name) (chartData (project cfg options)) =
          map (\<lambda>d. Some (JStr (dayLabel d))) (scenarios cfg)"
    by (simp add: chartData_project chartPointFor_def map_of_fold_setSeries filter_empty_conv)
  show "map day (groupedResults (project cfg options)) = map dayLabel (scenarios cfg)"
    by (simp add: groupedResults_project dayResultFor_def)
next
  assume "DAYS_TO_EXPIRY cfg = 100"
  then show "scenarios cfg = [30, 60, 90]" by (simp add: scenarios_def)
next
  assume short: "DAYS_TO_EXPIRY cfg < 30"
  then show none: "scenarios cfg = []" by (simp add: scenarios_def)
  show "chartData (project cfg options) = []" by (simp add: chartData_project none)
  show "groupedResults (project cfg options) = []" by (simp add: groupedResults_project none)
qed (simp_all add: set_scenarios sorted_scenarios)

theorem scenarios_retained_witness:
  "scenarios \<lparr>CURRENT_PRICE = 340, TARGET_PRICE = 360, RISK_FREE_RATE = 45 / 1000,
      DAYS_TO_EXPIRY = 100\<rparr> = [30, 60, 90]
   \<and> scenarios \<lparr>CURRENT_PRICE = 340, TARGET_PRICE = 360, RISK_FREE_RATE = 45 / 1000,
      DAYS_TO_EXPIRY = 20\<rparr> = []
   \<and> chartData (project \<lparr>CURRENT_PRICE = 340, TARGET_PRICE = 360, RISK_FREE_RATE = 45 / 1000,
      DAYS_TO_EXPIRY = 20\<rparr> []) = []
   \<and> groupedResults (project \<lparr>CURRENT_PRICE = 340, TARGET_PRICE = 360,
      RISK_FREE_RATE = 45 / 1000, DAYS_TO_EXPIRY = 20\<rparr> []) = []"
  using
    scenarios_retained [of
      "\<lparr>CURRENT_PRICE = 340, TARGET_PRICE = 360, RISK_FREE_RATE = 45 / 1000,
        DAYS_TO_EXPIRY = 100\<rparr>" "[]"]
    scenarios_retained [of
      "\<lparr>CURRENT_PRICE = 340, TARGET_PRICE = 360, RISK_FREE_RATE = 45 / 1000,
        DAYS_TO_EXPIRY = 20\<rparr>" "[]"]
  by simp

subsection \<open>Return on investment\<close>



subsection \<open>The chart series\<close>

text \<open>
  Claim C10. Every chart point has a property \<open>price\<close> holding the number
  \<open>config.TARGET_PRICE\<close>, one point per retained offset; with no contracts a chart point
  consists of the offset label and this property only.
\<close>

theorem chart_point_price:
  "map (\<lambda>cp. map_of cp Price) (chartData (project cfg options)) =
     map (\<lambda>d. Some (JNum (TARGET_PRICE cfg))) (scenarios cfg)
   \<and> chartData (project cfg []) =
       map (\<lambda>d. [(Name, JStr (dayLabel d)), (Price, JNum (TARGET_PRICE cfg))]) (scenarios cfg)"
  by (simp add: chartData_project chartPointFor_def map_of_fold_setSeries filter_empty_conv
      simulatedPrice_def sortedOptions_def)

theorem chart_point_price_witness:
  "chartData (project
      \<lparr>CURRENT_PRICE = 340, TARGET_PRICE = 360, RISK_FREE_RATE = 45 / 1000, DAYS_TO_EXPIRY = 65\<rparr>
      []) =
     [[(Name, JStr ''Day 30''), (Price, JNum 360)], [(Name, JStr ''Day 60''), (Price, JNum 360)]]"
  using chart_point_price [of
      "\<lparr>CURRENT_PRICE = 340, TARGET_PRICE = 360, RISK_FREE_RATE = 45 / 1000,
        DAYS_TO_EXPIRY = 65\<rparr>" "[]"]
  by (simp add: scenarios_def dayLabel_def decimal.simps digit_def)

subsection \<open>The per-contract properties of a chart point\<close>

lemma decimal_small: "n < 10 \<Longrightarrow> decimal n = [digit n]"
  by (simp add: decimal.simps)

lemma decimal_step: "10 \<le> n \<Longrightarrow> decimal n = decimal (n div 10) @ [digit (n mod 10)]"
  by (subst decimal.simps) simp

lemma length_decimal_pos: "0 < length (decimal n)"
  by (subst decimal.simps) simp

lemma toFixed_two_places:
  assumes "\<bar>x\<bar> < 10 ^ 21"
  shows "toFixed x 2 =
     JStr ((if x < 0 then ''-'' else []) @ decimal (toFixed_n x 2 div 100) @ ''.''
       @ [digit (toFixed_n x 2 div 10), digit (toFixed_n x 2)])"
proof -
  define n where "n = toFixed_n x 2"
  have mod10: "digit (k mod 10) = digit k" for k
    by (simp add: digit_def)
  consider "n < 10" | "10 \<le> n" "n < 100" | "100 \<le> n" by linarith
  then have "(let m = decimal n;
                  m = (if length m \<le> 2 then replicate (2 + 1 - length m) (CHR ''0'') @ m else m);
                  k = length m
              in take (k - 2) m @ ''.'' @ drop (k - 2) m) =
             decimal (n div 100) @ ''.'' @ [digit (n div 10), digit n]"
  proof cases
    case 1
    then have "decimal n = [digit n]" "n div 100 = 0" "n div 10 = 0"
      by (simp_all add: decimal_small)
    then show ?thesis
      by (simp add: Let_def decimal_small digit_def)
  next
    case 2
    then have "n div 10 < 10" by simp
    with 2 have "decimal n = [digit (n div 10), digit n]" "n div 100 = 0"
      by (simp_all add: decimal_step decimal_small mod10)
    then show ?thesis
      by (simp add: Let_def decimal_small digit_def)
  next
    case 3
    then have "10 \<le> n div 10" by simp
    moreover have "n div 10 div 10 = n div 100" by arith
    ultimately have eq: "decimal n = decimal (n div 100) @ [digit (n div 10), digit n]"
      using 3 by (simp add: decimal_step [of n] decimal_step [of "n div 10"] mod10)
    have "0 < length (decimal (n div 100))" by (rule length_decimal_pos)
    then show ?thesis
      by (simp add: Let_def eq)
  qed
  then show ?thesis
    using assms by (simp add: toFixed_def n_def Let_def)
qed

lemma toFixed_string: "toFixed x f \<noteq> JNum v"
  by (simp add: toFixed_def Let_def)

lemma toFixed_n_nearest: "\<bar>real (toFixed_n x f) / 10 ^ f - \<bar>x\<bar>\<bar> \<le> 1 / (2 * 10 ^ f)"
proof -
  define y where "y = \<bar>x\<bar> * 10 ^ f + 1 / 2"
  have "0 \<le> y" by (simp add: y_def)
  then have "0 \<le> \<lfloor>y\<rfloor>" by simp
  then have n: "real (toFixed_n x f) = of_int \<lfloor>y\<rfloor>"
    by (simp add: toFixed_n_def y_def)
  have "of_int \<lfloor>y\<rfloor> \<le> y" "y < of_int \<lfloor>y\<rfloor> + 1" by linarith+
  then have "\<bar>real (toFixed_n x f) - \<bar>x\<bar> * 10 ^ f\<bar> \<le> 1 / 2"
    unfolding n y_def by linarith
  then have "\<bar>real (toFixed_n x f) - \<bar>x\<bar> * 10 ^ f\<bar> / 10 ^ f \<le> (1 / 2) / 10 ^ f"
    by (rule divide_right_mono) simp
  moreover have "\<bar>u\<bar> / 10 ^ f = \<bar>u / 10 ^ f\<bar>" for u :: real
    by simp
  moreover have "(real (toFixed_n x f) - \<bar>x\<bar> * 10 ^ f) / 10 ^ f =
      real (toFixed_n x f) / 10 ^ f - \<bar>x\<bar>"
    by (simp add: diff_divide_distrib)
  ultimately show ?thesis by simp
qed

lemma filter_same_key_sortedOptions:
  "filter (\<lambda>opt'. Series (type opt') (strike opt') = Series l s) (sortedOptions options) =
   filter (\<lambda>opt'. Series (type opt') (strike opt') = Series l s) options"
proof -
  have "filter (\<lambda>opt'. type opt' = l \<and> strike opt' = s) (sort_key strike options) =
        filter (\<lambda>opt'. type opt' = l) (filter (\<lambda>opt'. strike opt' = s) (sort_key strike options))"
    by (simp add: conj_commute)
  also have "\<dots> = filter (\<lambda>opt'. type opt' = l) (filter (\<lambda>opt'. strike opt' = s) options)"
    by (simp only: sort_key_stable)
  also have "\<dots> = filter (\<lambda>opt'. type opt' = l \<and> strike opt' = s) options"
    by (simp add: conj_commute)
  finally show ?thesis by (simp add: sortedOptions_def)
qed

text \<open>
  Claim C8, as stated, fails: the property holds the string that \<^verbatim>\<open>toFixed(2)\<close> returns,
  not a number. For a contract bought at \<open>ask = 0\<close> the ROI is the number \<open>0\<close> and the chart
  point of day 30 holds the string \<open>0.00\<close>.
\<close>

theorem chart_series_string_counterexample:
  "roi \<lparr>CURRENT_PRICE = 340, TARGET_PRICE = 360, RISK_FREE_RATE = 45 / 1000,
          DAYS_TO_EXPIRY = 365\<rparr> 30
      \<lparr>opt_id = 2, type = ''ATM Call'', strike = 340, ask = 0, iv = 6737 / 10000,
          target_iv = Blank, delta = 6608 / 10000, gamma = 16 / 10000,
          theta = - (1288 / 10000)\<rparr> = 0
   \<and> map_of
     (hd (chartData (project
        \<lparr>CURRENT_PRICE = 340, TARGET_PRICE = 360, RISK_FREE_RATE = 45 / 1000,
          DAYS_TO_EXPIRY = 365\<rparr>
        [\<lparr>opt_id = 2, type = ''ATM Call'', strike = 340, ask = 0, iv = 6737 / 10000,
          target_iv = Blank, delta = 6608 / 10000, gamma = 16 / 10000,
          theta = - (1288 / 10000)\<rparr>])))
     (Series ''ATM Call'' 340) = Some (JStr ''0.00'')
   \<and> Some (JStr ''0.00'') \<noteq> Some (JNum 0)"
  by (simp add: chartData_project scenarios_def chartPointFor_def setSeries_def map_of_obj_set
      sortedOptions_def roi_def cost_def toFixed_zero)

text \<open>
  Claim C8, amended. Every chart point carries, for each contract, a property keyed by the
  contract's label and strike whose value is what \<^verbatim>\<open>toFixed(2)\<close> returns for the ROI of the
  last contract of the input with this label and strike, which is the contract itself when
  no other contract shares both. That value is a string, never a number. For an ROI of
  magnitude below \<open>10\<^sup>2\<^sup>1\<close> it is the ROI rounded to two decimals: an optional minus sign,
  the digits of \<open>n div 100\<close>, a point and the two digits of \<open>n mod 100\<close>, where \<open>n / 100\<close> is
  within \<open>0.005\<close> of the absolute value of the ROI. For an ROI of magnitude \<open>10\<^sup>2\<^sup>1\<close> or more
  it is the text of \<^verbatim>\<open>Number::toString\<close>, which has no fixed number of decimals.
\<close>

theorem chart_series_field:
  "chartData (project cfg options) =
     map (chartPointFor cfg (sortedOptions options)) (scenarios cfg)
   \<and> (opt \<in> set options \<longrightarrow>
        map_of (chartPointFor cfg (sortedOptions options) d) (Series (type opt) (strike opt)) =
          Some (toFixed
            (roi cfg d
               (last (filter (\<lambda>opt'. type opt' = type opt \<and> strike opt' = strike opt) options)))
            2))
   \<and> (opt \<in> set options
        \<and> (\<forall>opt' \<in> set options. type opt' = type opt \<and> strike opt' = strike opt \<longrightarrow> opt' = opt)
        \<longrightarrow>
        map_of (chartPointFor cfg (sortedOptions options) d) (Series (type opt) (strike opt)) =
          Some (toFixed (roi cfg d opt) 2))
   \<and> (\<forall>v. toFixed x 2 \<noteq> JNum v)
   \<and> (\<bar>x\<bar> < 10 ^ 21 \<longrightarrow>
        toFixed x 2 =
          JStr ((if x < 0 then ''-'' else []) @ decimal (toFixed_n x 2 div 100) @ ''.''
            @ [digit (toFixed_n x 2 div 10), digit (toFixed_n x 2)])
        \<and> \<bar>real (toFixed_n x 2) / 100 - \<bar>x\<bar>\<bar> \<le> 1 / 200)
   \<and> (\<bar>x\<bar> \<ge> 10 ^ 21 \<longrightarrow> toFixed x 2 = JNumberString x)"
proof (intro conjI impI allI)
  let ?same = "\<lambda>opt'. type opt' = type opt \<and> strike opt' = strike opt"
  have general: "map_of (chartPointFor cfg (sortedOptions options) d)
        (Series (type opt) (strike opt)) =
      Some (toFixed (roi cfg d (last (filter ?same options))) 2)"
    if "opt \<in> set options"
  proof -
    from that have "filter ?same options \<noteq> []"
      by (auto simp: filter_empty_conv)
    then show ?thesis
      using filter_same_key_sortedOptions [of "type opt" "strike opt" options]
      by (simp add: chartPointFor_def map_of_fold_setSeries split: list.splits)
  qed
  show "chartData (project cfg options) =
      map (chartPointFor cfg (sortedOptions options)) (scenarios cfg)"
    by (rule chartData_project)
  show "map_of (chartPointFor cfg (sortedOptions options) d) (Series (type opt) (strike opt)) =
      Some (toFixed (roi cfg d (last (filter ?same options))) 2)"
    if "opt \<in> set options"
    using that by (rule general)
  show "map_of (chartPointFor cfg (sortedOptions options) d) (Series (type opt) (strike opt)) =
      Some (toFixed (roi cfg d opt) 2)"
    if only: "opt \<in> set options \<and> (\<forall>opt' \<in> set options. ?same opt' \<longrightarrow> opt' = opt)"
  proof -
    from only have "filter ?same options \<noteq> []"
      by (auto simp: filter_empty_conv)
    then have "last (filter ?same options) \<in> set (filter ?same options)"
      by (rule last_in_set)
    with only have "last (filter ?same options) = opt" by auto
    with general only show ?thesis by simp
  qed
  show "toFixed x 2 \<noteq> JNum v" for v
    by (rule toFixed_string)
  show "toFixed x 2 =
       JStr ((if x < 0 then ''-'' else []) @ decimal (toFixed_n x 2 div 100) @ ''.''
         @ [digit (toFixed_n x 2 div 10), digit (toFixed_n x 2)])"
    if "\<bar>x\<bar> < 10 ^ 21"
    using that by (rule toFixed_two_places)
  show "\<bar>real (toFixed_n x 2) / 100 - \<bar>x\<bar>\<bar> \<le> 1 / 200"
    using toFixed_n_nearest [of x 2] by simp
  show "toFixed x 2 = JNumberString x" if "\<bar>x\<bar> \<ge> 10 ^ 21"
    using that by (simp add: toFixed_def)
qed

theorem chart_series_field_witness:
  "map (\<lambda>cp. map_of cp (Series ''ATM Call'' 340))
     (chartData (project
        \<lparr>CURRENT_PRICE = 340, TARGET_PRICE = 360, RISK_FREE_RATE = 45 / 1000,
          DAYS_TO_EXPIRY = 65\<rparr>
        [\<lparr>opt_id = 2, type = ''ATM Call'', strike = 340, ask = 0, iv = 6737 / 10000,
          target_iv = Blank, delta = 0, gamma = 0, theta = 0\<rparr>])) =
     [Some (JStr ''0.00''), Some (JStr ''0.00'')]
   \<and> toFixed (- (12345 / 1000)) 2 = JStr ''-12.35''
   \<and> toFixed (10 ^ 21) 2 = JNumberString (10 ^ 21)"
  using
    chart_series_field [of
      "\<lparr>CURRENT_PRICE = 340, TARGET_PRICE = 360, RISK_FREE_RATE = 45 / 1000,
        DAYS_TO_EXPIRY = 65\<rparr>"
      "[\<lparr>opt_id = 2, type = ''ATM Call'', strike = 340, ask = 0, iv = 6737 / 10000,
          target_iv = Blank, delta = 0, gamma = 0, theta = 0\<rparr>]"
      "\<lparr>opt_id = 2, type = ''ATM Call'', strike = 340, ask = 0, iv = 6737 / 10000,
          target_iv = Blank, delta = 0, gamma = 0, theta = 0\<rparr>" _ "- (12345 / 1000)"]
    chart_series_field [of
      "\<lparr>CURRENT_PRICE = 340, TARGET_PRICE = 360, RISK_FREE_RATE = 45 / 1000,
        DAYS_TO_EXPIRY = 65\<rparr>" "[]" _ _ "10 ^ 21"]
  by (simp add: chartData_project scenarios_def roi_def cost_def toFixed_zero toFixed_n_def
      decimal.simps digit_def)

subsection \<open>Strike order\<close>

lemma seriesStrikes_append:
  "seriesStrikes (kvs @ kvs') = seriesStrikes kvs @ seriesStrikes kvs'"
  by (induction kvs rule: seriesStrikes.induct) simp_all

lemma seriesStrikes_obj_set:
  "seriesStrikes (obj_set kvs (Series l s) v) =
     (if Series l s \<in> fst ` set kvs then seriesStrikes kvs else seriesStrikes kvs @ [s])"
proof (induction kvs)
  case Nil
  show ?case by simp
next
  case (Cons kv kvs)
  obtain k' v' where kv: "kv = (k', v')" by (cases kv)
  show ?case
  proof (cases "k' = Series l s")
    case True
    then show ?thesis by (simp add: kv)
  next
    case False
    then show ?thesis
      using Cons.IH by (cases k') (auto simp: kv)
  qed
qed

lemma series_key_strike:
  "(Series l s, v) \<in> set kvs \<Longrightarrow> s \<in> set (seriesStrikes kvs)"
  by (induction kvs rule: seriesStrikes.induct) auto

lemma set_seriesStrikes_setSeries:
  "set (seriesStrikes (setSeries cfg d opt cp)) = insert (strike opt) (set (seriesStrikes cp))"
  by (auto simp: setSeries_def seriesStrikes_obj_set dest: series_key_strike)

lemma sorted_seriesStrikes_setSeries:
  "sorted (seriesStrikes cp) \<Longrightarrow> \<forall>s \<in> set (seriesStrikes cp). s \<le> strike opt \<Longrightarrow>
   sorted (seriesStrikes (setSeries cfg d opt cp))"
  by (simp add: setSeries_def seriesStrikes_obj_set sorted_append)

lemma set_seriesStrikes_fold:
  "set (seriesStrikes (fold (setSeries cfg d) sopts cp)) =
     set (seriesStrikes cp) \<union> strike ` set sopts"
  by (induction sopts arbitrary: cp) (auto simp: set_seriesStrikes_setSeries)

lemma sorted_seriesStrikes_fold:
  "sorted (map strike sopts) \<Longrightarrow> sorted (seriesStrikes cp) \<Longrightarrow>
   \<forall>s \<in> set (seriesStrikes cp). \<forall>opt \<in> set sopts. s \<le> strike opt \<Longrightarrow>
   sorted (seriesStrikes (fold (setSeries cfg d) sopts cp))"
proof (induction sopts arbitrary: cp)
  case Nil
  then show ?case by simp
next
  case (Cons opt sopts)
  have "sorted (seriesStrikes (setSeries cfg d opt cp))"
    using Cons.prems by (intro sorted_seriesStrikes_setSeries) simp_all
  moreover have "\<forall>s \<in> set (seriesStrikes (setSeries cfg d opt cp)). \<forall>opt' \<in> set sopts.
      s \<le> strike opt'"
    using Cons.prems by (auto simp: set_seriesStrikes_setSeries)
  moreover have "sorted (map strike sopts)"
    using Cons.prems by simp
  ultimately show ?case
    using Cons.IH [of "setSeries cfg d opt cp"] by simp
qed

lemma seriesStrikes_chartPointFor:
  "sorted (map strike sopts) \<Longrightarrow>
   sorted (seriesStrikes (chartPointFor cfg sopts d))
   \<and> set (seriesStrikes (chartPointFor cfg sopts d)) = strike ` set sopts"
  unfolding chartPointFor_def
  by (simp add: sorted_seriesStrikes_fold set_seriesStrikes_fold)

lemma sorted_sortedOptions: "sorted (map strike (sortedOptions options))"
  by (simp add: sortedOptions_def)

lemma stable_sortedOptions:
  "filter (\<lambda>opt. strike opt = k) (sortedOptions options) = filter (\<lambda>opt. strike opt = k) options"
  by (simp add: sortedOptions_def sort_key_stable)

lemma sortedOptions_order_independent:
  assumes same: "mset options' = mset options"
    and ties: "\<forall>k. filter (\<lambda>opt. strike opt = k) options' = filter (\<lambda>opt. strike opt = k) options"
  shows "sortedOptions options' = sortedOptions options"
  unfolding sortedOptions_def [of options']
proof (rule properties_for_sort_key)
  show "mset (sortedOptions options) = mset options'"
    by (simp add: sortedOptions_def same)
  show "sorted (map strike (sortedOptions options))"
    by (rule sorted_sortedOptions)
  fix k
  have "filter (\<lambda>opt. strike k = strike opt) (sortedOptions options) =
        filter (\<lambda>opt. strike opt = strike k) (sortedOptions options)"
    by (simp add: eq_commute)
  also have "\<dots> = filter (\<lambda>opt. strike opt = strike k) options'"
    by (simp add: stable_sortedOptions ties)
  also have "\<dots> = filter (\<lambda>opt. strike k = strike opt) options'"
    by (simp add: eq_commute)
  finally show "filter (\<lambda>opt. strike k = strike opt) (sortedOptions options) =
        filter (\<lambda>opt. strike k = strike opt) options'" .
qed

text \<open>
  Claim C6. The contracts are processed in ascending order of strike: the sorted list is a
  rearrangement of the input, ascending in strike, in which contracts of equal strike keep
  their input order; at every offset the details of the grouped table list the strikes of
  the sorted list, and the per-contract properties of the chart point are in ascending
  strike order and cover the strikes of the input. Two inputs that are rearrangements of
  each other and agree on the order of contracts of equal strike give the same outputs.
  Contracts with strikes 420, 270, 340 come out as 270, 340, 420 at every offset in both
  structures.
\<close>

theorem strike_order:
  "sorted (map strike (sortedOptions options))
   \<and> mset (sortedOptions options) = mset options
   \<and> (\<forall>k. filter (\<lambda>opt. strike opt = k) (sortedOptions options) =
           filter (\<lambda>opt. strike opt = k) options)
   \<and> (\<forall>g \<in> set (groupedResults (project cfg options)).
        map d_strike (details g) = map strike (sortedOptions options))
   \<and> (\<forall>cp \<in> set (chartData (project cfg options)).
        sorted (seriesStrikes cp) \<and> set (seriesStrikes cp) = strike ` set options)
   \<and> (mset options' = mset options
        \<and> (\<forall>k. filter (\<lambda>opt. strike opt = k) options' = filter (\<lambda>opt. strike opt = k) options)
        \<longrightarrow> project cfg options' = project cfg options)
   \<and> (strike x = 420 \<and> strike y = 270 \<and> strike z = 340 \<longrightarrow>
        sortedOptions [x, y, z] = [y, z, x]
        \<and> (\<forall>g \<in> set (groupedResults (project cfg [x, y, z])).
             map d_strike (details g) = [270, 340, 420])
        \<and> (\<forall>cp \<in> set (chartData (project cfg [x, y, z])).
             seriesStrikes cp = [270, 340, 420]))"
proof (intro conjI impI allI ballI)
  show "sorted (map strike (sortedOptions options))"
    by (rule sorted_sortedOptions)
  show "mset (sortedOptions options) = mset options"
    by (simp add: sortedOptions_def)
  show "filter (\<lambda>opt. strike opt = k) (sortedOptions options) =
      filter (\<lambda>opt. strike opt = k) options" for k
    by (rule stable_sortedOptions)
  show "map d_strike (details g) = map strike (sortedOptions options)"
    if "g \<in> set (groupedResults (project cfg options))" for g
    using that by (auto simp: groupedResults_project dayResultFor_def detailFor_def)
  show "sorted (seriesStrikes cp)" if "cp \<in> set (chartData (project cfg options))" for cp
    using that seriesStrikes_chartPointFor [OF sorted_sortedOptions]
    by (auto simp: chartData_project)
  show "set (seriesStrikes cp) = strike ` set options"
    if "cp \<in> set (chartData (project cfg options))" for cp
    using that seriesStrikes_chartPointFor [OF sorted_sortedOptions]
    by (auto simp: chartData_project set_sortedOptions)
  show "project cfg options' = project cfg options"
    if "mset options' = mset options
        \<and> (\<forall>k. filter (\<lambda>opt. strike opt = k) options' = filter (\<lambda>opt. strike opt = k) options)"
    using that sortedOptions_order_independent [of options' options]
    by (simp add: project_def)
next
  assume strikes: "strike x = 420 \<and> strike y = 270 \<and> strike z = 340"
  then show order: "sortedOptions [x, y, z] = [y, z, x]"
    by (simp add: sortedOptions_def)
  show "map d_strike (details g) = [270, 340, 420]"
    if "g \<in> set (groupedResults (project cfg [x, y, z]))" for g
    using that strikes
    by (auto simp: groupedResults_project order dayResultFor_def detailFor_def)
  show "seriesStrikes cp = [270, 340, 420]"
    if "cp \<in> set (chartData (project cfg [x, y, z]))" for cp
    using that strikes
    by (auto simp: chartData_project order chartPointFor_def setSeries_def)
qed

theorem strike_order_witness:
  "map (\<lambda>g. map d_strike (details g))
     (groupedResults (project
        \<lparr>CURRENT_PRICE = 340, TARGET_PRICE = 360, RISK_FREE_RATE = 45 / 1000,
          DAYS_TO_EXPIRY = 65\<rparr>
        [\<lparr>opt_id = 3, type = ''Deep OTM Call'', strike = 420, ask = 0, iv = 6736 / 10000,
           target_iv = Blank, delta = 0, gamma = 0, theta = 0\<rparr>,
         \<lparr>opt_id = 1, type = ''Deep ITM Call'', strike = 270, ask = 0, iv = 6845 / 10000,
           target_iv = Blank, delta = 0, gamma = 0, theta = 0\<rparr>,
         \<lparr>opt_id = 2, type = ''ATM Call'', strike = 340, ask = 0, iv = 6737 / 10000,
           target_iv = Blank, delta = 0, gamma = 0, theta = 0\<rparr>])) =
     [[270, 340, 420], [270, 340, 420]]
   \<and> map seriesStrikes
     (chartData (project
        \<lparr>CURRENT_PRICE = 340, TARGET_PRICE = 360, RISK_FREE_RATE = 45 / 1000,
          DAYS_TO_EXPIRY = 65\<rparr>
        [\<lparr>opt_id = 3, type = ''Deep OTM Call'', strike = 420, ask = 0, iv = 6736 / 10000,
           target_iv = Blank, delta = 0, gamma = 0, theta = 0\<rparr>,
         \<lparr>opt_id = 1, type = ''Deep ITM Call'', strike = 270, ask = 0, iv = 6845 / 10000,
           target_iv = Blank, delta = 0, gamma = 0, theta = 0\<rparr>,
         \<lparr>opt_id = 2, type = ''ATM Call'', strike = 340, ask = 0, iv = 6737 / 10000,
           target_iv = Blank, delta = 0, gamma = 0, theta = 0\<rparr>])) =
     [[270, 340, 420], [270, 340, 420]]"
proof -
  let ?x = "\<lparr>opt_id = 3, type = ''Deep OTM Call'', strike = 420, ask = 0, iv = 6736 / 10000,
           target_iv = Blank, delta = 0, gamma = 0, theta = 0\<rparr>"
  let ?y = "\<lparr>opt_id = 1, type = ''Deep ITM Call'', strike = 270, ask = 0, iv = 6845 / 10000,
           target_iv = Blank, delta = 0, gamma = 0, theta = 0\<rparr>"
  let ?z = "\<lparr>opt_id = 2, type = ''ATM Call'', strike = 340, ask = 0, iv = 6737 / 10000,
           target_iv = Blank, delta = 0, gamma = 0, theta = 0\<rparr>"
  let ?cfg = "\<lparr>CURRENT_PRICE = 340, TARGET_PRICE = 360, RISK_FREE_RATE = 45 / 1000,
          DAYS_TO_EXPIRY = 65\<rparr>"
  have strikes: "strike ?x = 420 \<and> strike ?y = 270 \<and> strike ?z = 340" by simp
  have example: "strike ?x = 420 \<and> strike ?y = 270 \<and> strike ?z = 340 \<longrightarrow>
        sortedOptions [?x, ?y, ?z] = [?y, ?z, ?x]
        \<and> (\<forall>g \<in> set (groupedResults (project ?cfg [?x, ?y, ?z])).
             map d_strike (details g) = [270, 340, 420])
        \<and> (\<forall>cp \<in> set (chartData (project ?cfg [?x, ?y, ?z])).
             seriesStrikes cp = [270, 340, 420])"
    by (rule strike_order [where options = "[]" and options' = "[]" and cfg = ?cfg
          and x = ?x and y = ?y and z = ?z,
          THEN conjunct2, THEN conjunct2, THEN conjunct2, THEN conjunct2, THEN conjunct2,
          THEN conjunct2])
  from example strikes
  have table: "\<forall>g \<in> set (groupedResults (project ?cfg [?x, ?y, ?z])).
             map d_strike (details g) = [270, 340, 420]"
    and chart: "\<forall>cp \<in> set (chartData (project ?cfg [?x, ?y, ?z])).
             seriesStrikes cp = [270, 340, 420]"
    by blast+
  have "length (groupedResults (project ?cfg [?x, ?y, ?z])) = 2"
    by (simp add: groupedResults_project scenarios_def)
  moreover have "length (chartData (project ?cfg [?x, ?y, ?z])) = 2"
    by (simp add: chartData_project scenarios_def)
  ultimately show ?thesis
    using table chart by (auto simp: list_eq_iff_nth_eq less_Suc_eq numeral_2_eq_2)
qed

end
